theory Spec2Isabelle
  imports Main "HOL-Library.Word"
begin

unbundle bit_operations_syntax

section \<open>Data model\<close>

text \<open>
  Go's \<open>uint64\<close> is a 64-bit word: \<open>+\<close> wraps around, \<open>\<le>\<close> and \<open><\<close> compare the
  unsigned values. A \<open>float64\<close> is carried by its IEEE-754 bit pattern
  (\<open>math.Float64bits\<close>): the code under study parses, stores and serialises prices
  and sizes, it does no arithmetic on them. A \<open>time.Time\<close> is an instant in
  nanoseconds relative to the Unix epoch.
\<close>

type_synonym uint64 = "64 word"
type_synonym byte = "8 word"
type_synonym float64 = "64 word"
type_synonym Time = int

text \<open>
  Package \<open>orderbook\<close> is not among the sources; its types are taken from the way the
  clients and \<open>pack.go\<close> use them. The two sides of the pending diff are called
  \<open>DiffBid\<close> and \<open>DiffAsk\<close> here (\<open>diff.Bid\<close>, \<open>diff.Ask\<close> in Go), the fields of a
  trade carry the prefix \<open>Trade\<close>.
\<close>

record BookLevel =
  Price :: float64
  Size :: float64

record BookLevelDiff =
  DiffBid :: "BookLevel list"
  DiffAsk :: "BookLevel list"

record Trade =
  TradeTime :: Time
  TradeSide :: byte
  TradePrice :: float64
  TradeSize :: float64

record Info =
  InfoID :: string
  DatabaseKey :: string

record Book =
  ID :: string
  ProductInfo :: Info
  Sequence :: uint64
  Synced :: bool
  Bid :: "BookLevel list"
  Ask :: "BookLevel list"
  Diff :: BookLevelDiff
  Trades :: "Trade list"

text \<open>
  \<open>util.BookBatchWrite\<close>: \<open>Count\<close>, \<open>Batch\<close> and \<open>LastDiffSeq\<close> occur in the clients;
  the two timers are the \<open>lastSyncTime\<close> and \<open>lastDiffTime\<close> of the specification's
  BatchState.
\<close>

record BatchChunk =
  ChunkTime :: Time
  ChunkKey :: string
  Data :: "byte list"

record BookBatchWrite =
  Count :: int
  Batch :: "BatchChunk list"
  LastSync :: Time
  LastDiff :: Time
  LastDiffSeq :: uint64

text \<open>The two errors that \<open>UpdateSync\<close> builds with \<open>fmt.Errorf\<close>.\<close>

datatype error =
  IgnoreOldMessages uint64 uint64
| MessageLostResync

section \<open>Sync gate\<close>

subsection \<open>Binance: range continuity\<close>

text \<open>
  \<open>Client.UpdateSync\<close> of the Binance client. The book is mutated in place in Go, so the
  model returns it next to the error (\<open>None\<close> is Go's \<open>nil\<close>). \<open>c.SyncBook\<close> is defined in a
  file that is not among the sources: it is the parameter \<open>syncBook\<close>, the book as that call
  leaves it. Its own error result is discarded by \<open>UpdateSync\<close>. Go's parameter \<open>last\<close>
  is called \<open>final\<close> here and below, \<open>last\<close> being the list function of HOL.
\<close>

definition UpdateSync ::
  "(Book \<Rightarrow> Book) \<Rightarrow> Book \<Rightarrow> uint64 \<Rightarrow> uint64 \<Rightarrow> error option \<times> Book" where
  "UpdateSync syncBook book first final =
     (let seq = Sequence book;
          next = seq + 1
      in if first \<le> seq then (Some (IgnoreOldMessages final seq), book)
         else if Synced book then
           (if first \<noteq> next then (Some MessageLostResync, syncBook book)
            else (None, book\<lparr>Sequence := final\<rparr>))
         else
           (let book' = (if first \<le> next \<and> final \<ge> next then book\<lparr>Synced := True\<rparr> else book)
            in (None, book'\<lparr>Sequence := final\<rparr>)))"

subsection \<open>Bitstamp: monotonic timestamps\<close>

definition bitstamp_UpdateSync :: "Book \<Rightarrow> uint64 \<Rightarrow> error option \<times> Book" where
  "bitstamp_UpdateSync book final =
     (let seq = Sequence book
      in if final < seq then (Some (IgnoreOldMessages final seq), book)
         else (None, book\<lparr>Sequence := final\<rparr>))"

section \<open>Codec\<close>

text \<open>
  \<open>binary.Write(buf, binary.LittleEndian, v)\<close> appends the fixed-size encoding of \<open>v\<close> to
  the buffer. \<open>PutUint64\<close> is \<open>binary.LittleEndian.PutUint64\<close>: byte \<open>i\<close> is
  \<open>byte(v >> (8 * i))\<close>. \<open>Uint64\<close> is the reader of the same package.
\<close>

definition PutUint64 :: "uint64 \<Rightarrow> byte list" where
  "PutUint64 v =
     [ucast v, ucast (drop_bit 8 v), ucast (drop_bit 16 v), ucast (drop_bit 24 v),
      ucast (drop_bit 32 v), ucast (drop_bit 40 v), ucast (drop_bit 48 v),
      ucast (drop_bit 56 v)]"

fun Uint64 :: "byte list \<Rightarrow> uint64 option" where
  "Uint64 (b0 # b1 # b2 # b3 # b4 # b5 # b6 # b7 # rest) =
     Some (ucast b0 OR push_bit 8 (ucast b1) OR push_bit 16 (ucast b2)
           OR push_bit 24 (ucast b3) OR push_bit 32 (ucast b4) OR push_bit 40 (ucast b5)
           OR push_bit 48 (ucast b6) OR push_bit 56 (ucast b7))"
| "Uint64 _ = None"

definition binary_Write_bytes :: "byte list \<Rightarrow> byte list \<Rightarrow> byte list" where
  "binary_Write_bytes buf bs = buf @ bs"

definition binary_Write_uint64 :: "byte list \<Rightarrow> uint64 \<Rightarrow> byte list" where
  "binary_Write_uint64 buf v = buf @ PutUint64 v"

definition binary_Write_uint8 :: "byte list \<Rightarrow> byte \<Rightarrow> byte list" where
  "binary_Write_uint8 buf v = buf @ [v]"

definition binary_Write_float64 :: "byte list \<Rightarrow> float64 \<Rightarrow> byte list" where
  "binary_Write_float64 buf x = buf @ PutUint64 x"

text \<open>
  The body of the two \<open>range\<close> loops of \<open>PackSync\<close> and \<open>PackDiff\<close>: price, then size.
\<close>

definition write_level :: "BookLevel \<Rightarrow> byte list \<Rightarrow> byte list" where
  "write_level level buf =
     binary_Write_float64 (binary_Write_float64 buf (Price level)) (Size level)"

text \<open>
  The packet-type constants \<open>SyncPacket\<close>, \<open>DiffPacket\<close> and \<open>TradePacket\<close> are declared in a
  package that is not among the sources. Each packing function takes the bytes that
  \<open>binary.Write\<close> produces for its constant as its first argument.
\<close>

definition PackSync :: "byte list \<Rightarrow> Book \<Rightarrow> byte list" where
  "PackSync syncPacket book =
     (let buf = [];
          buf = binary_Write_bytes buf syncPacket;
          buf = binary_Write_uint64 buf (Sequence book);
          buf = binary_Write_uint64 buf (of_nat (length (Bid book)));
          buf = fold write_level (Bid book) buf;
          buf = binary_Write_uint64 buf (of_nat (length (Ask book)));
          buf = fold write_level (Ask book) buf
      in buf)"

definition PackDiff :: "byte list \<Rightarrow> uint64 \<Rightarrow> uint64 \<Rightarrow> BookLevelDiff \<Rightarrow> byte list" where
  "PackDiff diffPacket first final diff =
     (let buf = [];
          buf = binary_Write_bytes buf diffPacket;
          buf = binary_Write_uint64 buf first;
          buf = binary_Write_uint64 buf first;
          buf = binary_Write_uint64 buf final;
          buf = binary_Write_uint64 buf (of_nat (length (DiffBid diff)));
          buf = fold write_level (DiffBid diff) buf;
          buf = binary_Write_uint64 buf (of_nat (length (DiffAsk diff)));
          buf = fold write_level (DiffAsk diff) buf
      in buf)"

definition PackTrade :: "byte list \<Rightarrow> Trade \<Rightarrow> byte list" where
  "PackTrade tradePacket trade =
     (let buf = [];
          buf = binary_Write_bytes buf tradePacket;
          buf = binary_Write_uint64 buf 0;
          buf = binary_Write_uint8 buf (TradeSide trade);
          buf = binary_Write_float64 buf (TradePrice trade);
          buf = binary_Write_float64 buf (TradeSize trade)
      in buf)"

section \<open>Collaborators outside the sources\<close>

text \<open>
  The clients call into packages \<open>orderbook\<close> and \<open>util\<close> and into \<open>Client.SyncBook\<close>, none of
  which is among the sources. What the clients do is stated for every behaviour of these
  calls: they are the fields of an environment, each a function from the state it receives
  to the state it leaves (receiver first, then the arguments in Go's order).
  \<open>NextSync\<close> and \<open>NextDiff\<close> return their verdict and the batch as they leave it.
  \<open>common_PackSync\<close> and \<open>common_PackDiff\<close> are the packing functions of the shared
  \<open>orderbook\<close> package that the Bitstamp client calls.
\<close>

record Env =
  SyncBook :: "Book \<Rightarrow> Book"
  UpdateBidLevel :: "Book \<Rightarrow> Time \<Rightarrow> float64 \<Rightarrow> float64 \<Rightarrow> Book"
  UpdateAskLevel :: "Book \<Rightarrow> Time \<Rightarrow> float64 \<Rightarrow> float64 \<Rightarrow> Book"
  GetSide :: "Book \<Rightarrow> float64 \<Rightarrow> byte"
  FixBookLevels :: "Book \<Rightarrow> Book"
  NextSync :: "BookBatchWrite \<Rightarrow> Time \<Rightarrow> bool \<times> BookBatchWrite"
  NextDiff :: "BookBatchWrite \<Rightarrow> Time \<Rightarrow> bool \<times> BookBatchWrite"
  SyncPacket :: "byte list"
  DiffPacket :: "byte list"
  TradePacket :: "byte list"
  common_PackSync :: "Book \<Rightarrow> byte list"
  common_PackDiff :: "uint64 \<Rightarrow> uint64 \<Rightarrow> BookLevelDiff \<Rightarrow> byte list"

text \<open>
  Modelled from the spec: \<open>Book.ResetDiff\<close> (package \<open>orderbook\<close> is missing). The
  specification's batch writer "resets \<open>pendingDiff\<close>" and \<open>takeDiff\<close> "clears it": both
  sides of the pending diff become empty, nothing else changes.
\<close>

definition ResetDiff :: "Book \<Rightarrow> Book" where
  "ResetDiff book = book\<lparr>Diff := \<lparr>DiffBid = [], DiffAsk = []\<rparr>\<rparr>"

text \<open>
  Modelled from the spec: \<open>Book.AddTrade\<close> (package \<open>orderbook\<close> is missing). The
  specification's \<open>recordTrade(time, side, price, size)\<close> "appends a Trade; does not mutate
  price levels".
\<close>

definition AddTrade :: "Book \<Rightarrow> Time \<Rightarrow> byte \<Rightarrow> float64 \<Rightarrow> float64 \<Rightarrow> Book" where
  "AddTrade book t side price sz =
     book\<lparr>Trades := Trades book @
       [\<lparr>TradeTime = t, TradeSide = side, TradePrice = price, TradeSize = sz\<rparr>]\<rparr>"

text \<open>
  Modelled from the spec: \<open>BookBatchWrite.Write\<close> (package \<open>util\<close> is missing). The
  specification's batch flush interface is \<open>write(store, timestamp, routingKey,
  recordBytes)\<close> with append semantics, order preserved within a routing key, and
  \<open>count\<close> counts the records since start. \<open>Batch\<close> is the sequence of records handed to
  \<open>Write\<close>, in order; when the store takes them over is the persistence collaborator's
  business and is not modelled.
\<close>

definition BatchWrite :: "BookBatchWrite \<Rightarrow> Time \<Rightarrow> string \<Rightarrow> byte list \<Rightarrow> BookBatchWrite" where
  "BatchWrite batch now key pkt =
     batch\<lparr>Count := Count batch + 1,
           Batch := Batch batch @ [\<lparr>ChunkTime = now, ChunkKey = key, Data = pkt\<rparr>]\<rparr>"

section \<open>Batch writer\<close>

subsection \<open>Binance\<close>

text \<open>
  \<open>Client.WriteDiff\<close> and \<open>Client.WriteSync\<close> mutate the batch and the book; the model returns
  both. \<open>now\<close> is the \<open>time.Now()\<close> that \<open>HandleMessage\<close> read.
\<close>

definition WriteDiff :: "Env \<Rightarrow> BookBatchWrite \<Rightarrow> Book \<Rightarrow> Time \<Rightarrow> Book \<times> BookBatchWrite" where
  "WriteDiff c batch book now =
     (let book1 = FixBookLevels c book;
          diff = Diff book1
      in if length (DiffBid diff) \<noteq> 0 \<or> length (DiffAsk diff) \<noteq> 0 then
           (let pkt = PackDiff (DiffPacket c) (LastDiffSeq batch) (Sequence book1) diff;
                batch1 = BatchWrite batch now (DatabaseKey (ProductInfo book1)) pkt;
                book2 = ResetDiff book1;
                batch2 = batch1\<lparr>LastDiffSeq := Sequence book2 + 1\<rparr>
            in (book2, batch2))
         else (book1, batch))"

definition WriteSync :: "Env \<Rightarrow> BookBatchWrite \<Rightarrow> Book \<Rightarrow> Time \<Rightarrow> Book \<times> BookBatchWrite" where
  "WriteSync c batch book now =
     (let book1 = FixBookLevels c book;
          batch1 = BatchWrite batch now (DatabaseKey (ProductInfo book1))
                     (PackSync (SyncPacket c) book1);
          book2 = ResetDiff book1;
          batch2 = batch1\<lparr>LastDiffSeq := Sequence book2 + 1\<rparr>
      in (book2, batch2))"

subsection \<open>Bitstamp\<close>

definition bitstamp_WriteDiff ::
  "Env \<Rightarrow> BookBatchWrite \<Rightarrow> Book \<Rightarrow> Time \<Rightarrow> Book \<times> BookBatchWrite" where
  "bitstamp_WriteDiff c batch book now =
     (let book1 = FixBookLevels c book;
          diff = Diff book1
      in if length (DiffBid diff) \<noteq> 0 \<or> length (DiffAsk diff) \<noteq> 0 then
           (let pkt = common_PackDiff c (LastDiffSeq batch) (Sequence book1) diff;
                batch1 = BatchWrite batch now (DatabaseKey (ProductInfo book1)) pkt;
                book2 = ResetDiff book1;
                batch2 = batch1\<lparr>LastDiffSeq := Sequence book2 + 1\<rparr>
            in (book2, batch2))
         else (book1, batch))"

definition bitstamp_WriteSync ::
  "Env \<Rightarrow> BookBatchWrite \<Rightarrow> Book \<Rightarrow> Time \<Rightarrow> Book \<times> BookBatchWrite" where
  "bitstamp_WriteSync c batch book now =
     (let book1 = FixBookLevels c book;
          batch1 = BatchWrite batch now (DatabaseKey (ProductInfo book1))
                     (common_PackSync c book1);
          book2 = ResetDiff book1;
          batch2 = batch1\<lparr>LastDiffSeq := Sequence book2 + 1\<rparr>
      in (book2, batch2))"

section \<open>Binance feed client\<close>

text \<open>
  A raw message is modelled by what the three \<open>json.Unmarshal\<close> calls of \<open>HandleMessage\<close>
  make of it: \<open>None\<close> where the call returns an error. Prices and sizes are the values of
  \<open>strconv.ParseFloat\<close> on the feed's strings (its error is discarded in Go); the fields of
  \<open>PacketAggTrade\<close> that \<open>HandleMessage\<close> never reads are left out, and its \<open>Price\<close> and
  \<open>Quantity\<close> are called \<open>AggPrice\<close> and \<open>AggQuantity\<close>. Go's \<open>int\<close> is 64 bits wide.
  Go's local \<open>size\<close> is \<open>sz\<close>, \<open>size\<close> being a constant of HOL.
\<close>

record PacketEventHeader =
  EventType :: string
  EventTime :: "64 word"

record PacketDepthUpdate =
  FirstUpdateID :: uint64
  FinalUpdateID :: uint64
  Bids :: "(float64 \<times> float64) list"
  Asks :: "(float64 \<times> float64) list"

record PacketAggTrade =
  AggPrice :: float64
  AggQuantity :: float64

record RawMessage =
  as_PacketEventHeader :: "PacketEventHeader option"
  as_PacketDepthUpdate :: "PacketDepthUpdate option"
  as_PacketAggTrade :: "PacketAggTrade option"

text \<open>
  \<open>HandleMessage\<close>, lines 157 to 210: the event is decoded and applied to the book.
  \<open>Inl book\<close> is a \<open>return\<close> before the batch writer is reached, with the book as it is
  then; \<open>Inr (book, trade)\<close> goes on to the batch writer, \<open>trade\<close> being Go's \<open>trade\<close>
  pointer (\<open>None\<close> for \<open>nil\<close>). \<open>AddTrade\<close> has appended, so \<open>book.Trades\<close> is not empty
  where its last element is read.
\<close>

definition HandleMessage_event :: "Env \<Rightarrow> Book \<Rightarrow> RawMessage \<Rightarrow> Book + Book \<times> Trade option" where
  "HandleMessage_event c book raw =
     (case as_PacketEventHeader raw of
        None \<Rightarrow> Inl book
      | Some event \<Rightarrow>
          (let eventTime = sint (EventTime event * 1000000)
           in if EventType event = ''depthUpdate'' then
                (case as_PacketDepthUpdate raw of
                   None \<Rightarrow> Inl book
                 | Some depthUpdate \<Rightarrow>
                     (case UpdateSync (SyncBook c) book (FirstUpdateID depthUpdate)
                             (FinalUpdateID depthUpdate) of
                        (Some err, book1) \<Rightarrow> Inl book1
                      | (None, book1) \<Rightarrow>
                          (let book2 = fold (\<lambda>(price, sz) b. UpdateBidLevel c b eventTime price sz)
                                         (Bids depthUpdate) book1;
                               book3 = fold (\<lambda>(price, sz) b. UpdateAskLevel c b eventTime price sz)
                                         (Asks depthUpdate) book2
                           in Inr (book3, None))))
              else if EventType event = ''aggTrade'' then
                (case as_PacketAggTrade raw of
                   None \<Rightarrow> Inl book
                 | Some data \<Rightarrow>
                     (let price = AggPrice data;
                          sz = AggQuantity data;
                          side = GetSide c book price;
                          book1 = AddTrade book eventTime side price sz;
                          trade = last (Trades book1)
                      in Inr (book1, Some trade)))
              else Inl book))"

text \<open>
  \<open>HandleMessage\<close>, lines 212 to 228: the batch writer. \<open>batch\<close> is \<open>c.BatchWrite[book.ID]\<close>,
  which \<open>AddProduct\<close> has registered.
\<close>

definition HandleMessage_store ::
  "Env \<Rightarrow> bool \<Rightarrow> Book \<Rightarrow> BookBatchWrite \<Rightarrow> Trade option \<Rightarrow> Time \<Rightarrow> Book \<times> BookBatchWrite" where
  "HandleMessage_store c dbEnabled book batch trade now =
     (if dbEnabled then
        (let batch1 = (case trade of
                         Some t \<Rightarrow> BatchWrite batch now (DatabaseKey (ProductInfo book))
                                     (PackTrade (TradePacket c) t)
                       | None \<Rightarrow> batch);
             (sync, batch2) = NextSync c batch1 now
         in if sync then WriteSync c batch2 book now
            else (let (diff, batch3) = NextDiff c batch2 now
                  in if diff then WriteDiff c batch3 book now
                     else (book, batch3)))
      else (book, batch))"

definition HandleMessage ::
  "Env \<Rightarrow> bool \<Rightarrow> Book \<Rightarrow> BookBatchWrite \<Rightarrow> RawMessage \<Rightarrow> Time \<Rightarrow> Book \<times> BookBatchWrite" where
  "HandleMessage c dbEnabled book batch raw now =
     (case HandleMessage_event c book raw of
        Inl book1 \<Rightarrow> (book1, batch)
      | Inr (book1, trade) \<Rightarrow> HandleMessage_store c dbEnabled book1 batch trade now)"

text \<open>
  The read loop of \<open>run\<close>, for one instrument: a text message is handled by
  \<open>HandleMessage\<close>; after each (re)connect the first text message makes the loop call
  \<open>SyncBook\<close> instead. \<open>run_steps\<close> is the state after a sequence of such steps.
\<close>

datatype Input =
  Message RawMessage Time
| InitialSync

fun step :: "Env \<Rightarrow> bool \<Rightarrow> Book \<times> BookBatchWrite \<Rightarrow> Input \<Rightarrow> Book \<times> BookBatchWrite" where
  "step c dbEnabled (book, batch) (Message raw now) = HandleMessage c dbEnabled book batch raw now"
| "step c dbEnabled (book, batch) InitialSync = (SyncBook c book, batch)"

definition run_steps ::
  "Env \<Rightarrow> bool \<Rightarrow> Book \<times> BookBatchWrite \<Rightarrow> Input list \<Rightarrow> Book \<times> BookBatchWrite" where
  "run_steps c dbEnabled s inputs = foldl (step c dbEnabled) s inputs"

section \<open>The wire format in the specification's words\<close>

text \<open>
  Little-endian, arithmetically: byte \<open>i\<close> of a 64-bit value \<open>v\<close> is
  \<open>v div 256 ^ i mod 256\<close>. A price level is its price, then its size, each a 64-bit
  float. The Diff record of the specification's table: tag; sequence field (equal to
  \<open>first\<close>); first; last; bid count; the bid levels; ask count; the ask levels.
\<close>

definition le64 :: "uint64 \<Rightarrow> byte list" where
  "le64 v = map (\<lambda>i. of_nat (unat v div 256 ^ i mod 256)) [0..<8]"

definition level_pairs :: "BookLevel list \<Rightarrow> byte list" where
  "level_pairs levels = concat (map (\<lambda>l. le64 (Price l) @ le64 (Size l)) levels)"

definition Diff_record :: "byte list \<Rightarrow> uint64 \<Rightarrow> uint64 \<Rightarrow> BookLevelDiff \<Rightarrow> byte list" where
  "Diff_record tag first final diff =
     tag @ le64 first @ le64 first @ le64 final
       @ le64 (of_nat (length (DiffBid diff))) @ level_pairs (DiffBid diff)
       @ le64 (of_nat (length (DiffAsk diff))) @ level_pairs (DiffAsk diff)"

definition Sync_record :: "byte list \<Rightarrow> uint64 \<Rightarrow> BookLevel list \<Rightarrow> BookLevel list \<Rightarrow> byte list" where
  "Sync_record tag seq bids asks =
     tag @ le64 seq
       @ le64 (of_nat (length bids)) @ level_pairs bids
       @ le64 (of_nat (length asks)) @ level_pairs asks"

section \<open>A concrete environment\<close>

text \<open>
  The theorems below hold for every environment. To run the clients on concrete inputs,
  one environment is fixed here, each part of it written after the specification.
\<close>

text \<open>
  Modelled from the spec: \<open>Client.SyncBook\<close> (its file is missing). On a resync the
  "book [is] marked unsynced, fresh snapshot fetched": the book takes the sequence and the
  levels of the snapshot \<open>(seq, bids, asks)\<close> that the exchange returns.
\<close>

definition SyncBook_snapshot :: "uint64 \<times> BookLevel list \<times> BookLevel list \<Rightarrow> Book \<Rightarrow> Book" where
  "SyncBook_snapshot snap book =
     (case snap of (seq, bids, asks) \<Rightarrow>
        book\<lparr>Sequence := seq, Synced := False, Bid := bids, Ask := asks\<rparr>)"

text \<open>
  Modelled from the spec: \<open>Book.UpdateBidLevel\<close> and \<open>Book.UpdateAskLevel\<close> (package
  \<open>orderbook\<close> is missing). The specification's \<open>applyLevelUpdate(side, price, size)\<close>
  "upserts or removes (\<open>size==0\<close>) a PriceLevel in the named side's table and records the
  same entry in \<open>pendingDiff[side]\<close> (overwriting any prior pending entry at that price)".
  A size is zero when its bit pattern is that of \<open>+0.0\<close> or \<open>-0.0\<close>. The order of a
  table by price is a comparison of floats and is left out: a new price goes to the end.
\<close>

definition is_zero :: "float64 \<Rightarrow> bool" where
  "is_zero x = (x = 0 \<or> x = 0x8000000000000000)"

definition upsert_level :: "BookLevel list \<Rightarrow> float64 \<Rightarrow> float64 \<Rightarrow> BookLevel list" where
  "upsert_level levels price sz =
     (if price \<in> set (map Price levels)
      then map (\<lambda>l. if Price l = price then \<lparr>Price = price, Size = sz\<rparr> else l) levels
      else levels @ [\<lparr>Price = price, Size = sz\<rparr>])"

definition apply_level :: "BookLevel list \<Rightarrow> float64 \<Rightarrow> float64 \<Rightarrow> BookLevel list" where
  "apply_level levels price sz =
     (if is_zero sz then filter (\<lambda>l. Price l \<noteq> price) levels
      else upsert_level levels price sz)"

definition applyBidLevel :: "Book \<Rightarrow> Time \<Rightarrow> float64 \<Rightarrow> float64 \<Rightarrow> Book" where
  "applyBidLevel book t price sz =
     book\<lparr>Bid := apply_level (Bid book) price sz,
          Diff := (Diff book)\<lparr>DiffBid := upsert_level (DiffBid (Diff book)) price sz\<rparr>\<rparr>"

definition applyAskLevel :: "Book \<Rightarrow> Time \<Rightarrow> float64 \<Rightarrow> float64 \<Rightarrow> Book" where
  "applyAskLevel book t price sz =
     book\<lparr>Ask := apply_level (Ask book) price sz,
          Diff := (Diff book)\<lparr>DiffAsk := upsert_level (DiffAsk (Diff book)) price sz\<rparr>\<rparr>"

text \<open>
  Modelled from the spec: \<open>Book.FixBookLevels\<close> (package \<open>orderbook\<close> is missing). The
  specification's batch writer "purges tombstones" before it encodes: the levels of size
  zero leave both tables.
\<close>

definition purgeTombstones :: "Book \<Rightarrow> Book" where
  "purgeTombstones book =
     book\<lparr>Bid := filter (\<lambda>l. \<not> is_zero (Size l)) (Bid book),
          Ask := filter (\<lambda>l. \<not> is_zero (Size l)) (Ask book)\<rparr>"

text \<open>
  Modelled from the spec: \<open>BookBatchWrite.NextSync\<close> and \<open>NextDiff\<close> (package \<open>util\<close> is
  missing). \<open>shouldSnapshot(now)\<close> is "true when elapsed time since \<open>lastSyncTime\<close>
  exceeds a configured snapshot interval" and then sets \<open>lastSyncTime = now\<close>;
  \<open>shouldDiff(now)\<close> is the same on \<open>lastDiffTime\<close> and the diff interval.
\<close>

definition shouldSnapshot :: "int \<Rightarrow> BookBatchWrite \<Rightarrow> Time \<Rightarrow> bool \<times> BookBatchWrite" where
  "shouldSnapshot interval batch now =
     (if now - LastSync batch > interval then (True, batch\<lparr>LastSync := now\<rparr>)
      else (False, batch))"

definition shouldDiff :: "int \<Rightarrow> BookBatchWrite \<Rightarrow> Time \<Rightarrow> bool \<times> BookBatchWrite" where
  "shouldDiff interval batch now =
     (if now - LastDiff batch > interval then (True, batch\<lparr>LastDiff := now\<rparr>)
      else (False, batch))"

text \<open>
  The environment: a snapshot at sequence 100 with no levels, snapshots every 60 seconds,
  diffs every second, one-byte tags 0, 1 and 2, and a side classifier that answers 0
  (the specification's classifier compares floats and is not modelled).
\<close>

definition example_env :: Env where
  "example_env =
     \<lparr>SyncBook = SyncBook_snapshot (100, [], []),
      UpdateBidLevel = applyBidLevel,
      UpdateAskLevel = applyAskLevel,
      GetSide = (\<lambda>book price. 0),
      FixBookLevels = purgeTombstones,
      NextSync = shouldSnapshot 60000000000,
      NextDiff = shouldDiff 1000000000,
      SyncPacket = [0],
      DiffPacket = [1],
      TradePacket = [2],
      common_PackSync = PackSync [0],
      common_PackDiff = PackDiff [1]\<rparr>"

text \<open>A book at sequence 10, not synced, with no levels, and a fresh batch.\<close>

definition example_book :: Book where
  "example_book =
     \<lparr>ID = ''BTC-USDT'',
      ProductInfo = \<lparr>InfoID = ''BTCUSDT'', DatabaseKey = ''Binance-BTC-USDT''\<rparr>,
      Sequence = 10, Synced = False, Bid = [], Ask = [],
      Diff = \<lparr>DiffBid = [], DiffAsk = []\<rparr>, Trades = []\<rparr>"

definition example_batch :: BookBatchWrite where
  "example_batch = \<lparr>Count = 0, Batch = [], LastSync = 0, LastDiff = 0, LastDiffSeq = 0\<rparr>"

text \<open>A depth update for the range \<open>[first, final]\<close> with one bid (price 100.0, size 5.0) and no ask.\<close>

definition example_depthUpdate :: "uint64 \<Rightarrow> uint64 \<Rightarrow> RawMessage" where
  "example_depthUpdate first final =
     \<lparr>as_PacketEventHeader = Some \<lparr>EventType = ''depthUpdate'', EventTime = 1\<rparr>,
      as_PacketDepthUpdate =
        Some \<lparr>FirstUpdateID = first, FinalUpdateID = final, Bids = [(0x4059000000000000, 0x4014000000000000)], Asks = []\<rparr>,
      as_PacketAggTrade = None\<rparr>"

definition example_aggTrade :: RawMessage where
  "example_aggTrade =
     \<lparr>as_PacketEventHeader = Some \<lparr>EventType = ''aggTrade'', EventTime = 1\<rparr>,
      as_PacketDepthUpdate = None,
      as_PacketAggTrade = Some \<lparr>AggPrice = 0x4059000000000000, AggQuantity = 0x4014000000000000\<rparr>\<rparr>"

text \<open>
  The example book after the depth update \<open>[11, 13]\<close>: synced, at sequence 13, with the
  bid of the message in the table and in the pending diff.
\<close>

definition example_book_13 :: Book where
  "example_book_13 =
     example_book\<lparr>Sequence := 13, Synced := True,
       Bid := [\<lparr>Price = 0x4059000000000000, Size = 0x4014000000000000\<rparr>],
       Diff := \<lparr>DiffBid = [\<lparr>Price = 0x4059000000000000, Size = 0x4014000000000000\<rparr>],
                DiffAsk = []\<rparr>\<rparr>"

text \<open>
  The trade that the example trade message appends (event time 1 ms), and the example book
  with it.
\<close>

definition example_trade :: Trade where
  "example_trade =
     \<lparr>TradeTime = 1000000, TradeSide = 0,
      TradePrice = 0x4059000000000000, TradeSize = 0x4014000000000000\<rparr>"

definition example_book_traded :: Book where
  "example_book_traded = example_book\<lparr>Trades := [example_trade]\<rparr>"


section \<open>The range-continuity gate\<close>

text \<open>The four paths of \<open>UpdateSync\<close>, one lemma each.\<close>

lemma UpdateSync_stale:
  "first \<le> Sequence book \<Longrightarrow>
   UpdateSync syncBook book first final =
     (Some (IgnoreOldMessages final (Sequence book)), book)"
  by (simp add: UpdateSync_def)

lemma UpdateSync_resync:
  "Sequence book < first \<Longrightarrow> Synced book \<Longrightarrow> first \<noteq> Sequence book + 1 \<Longrightarrow>
   UpdateSync syncBook book first final = (Some MessageLostResync, syncBook book)"
  by (simp add: UpdateSync_def Let_def)

lemma UpdateSync_synced_next:
  "Sequence book < first \<Longrightarrow> Synced book \<Longrightarrow> first = Sequence book + 1 \<Longrightarrow>
   UpdateSync syncBook book first final = (None, book\<lparr>Sequence := final\<rparr>)"
  by (simp add: UpdateSync_def Let_def)

lemma UpdateSync_unsynced:
  "Sequence book < first \<Longrightarrow> \<not> Synced book \<Longrightarrow>
   UpdateSync syncBook book first final =
     (None, book\<lparr>Synced := (first \<le> Sequence book + 1 \<and> Sequence book + 1 \<le> final),
                  Sequence := final\<rparr>)"
  by (auto simp add: UpdateSync_def Let_def)

text \<open>
  On the resync path the book that \<open>UpdateSync\<close> leaves does not depend on \<open>final\<close>,
  whatever \<open>SyncBook\<close> does: \<open>SyncBook\<close> receives the book only.
\<close>

lemma UpdateSync_resync_ignores_final:
  "Sequence book < first \<Longrightarrow> Synced book \<Longrightarrow> first \<noteq> Sequence book + 1 \<Longrightarrow>
   snd (UpdateSync syncBook book first final) = snd (UpdateSync syncBook book first final')"
  by (simp add: UpdateSync_resync)

text \<open>A depth update that decodes goes through \<open>UpdateSync\<close>, then through the two loops.\<close>

lemma HandleMessage_event_depthUpdate:
  "as_PacketEventHeader raw = Some event \<Longrightarrow> EventType event = ''depthUpdate'' \<Longrightarrow>
   as_PacketDepthUpdate raw = Some du \<Longrightarrow>
   HandleMessage_event c book raw =
     (case UpdateSync (SyncBook c) book (FirstUpdateID du) (FinalUpdateID du) of
        (Some err, book1) \<Rightarrow> Inl book1
      | (None, book1) \<Rightarrow>
          Inr (fold (\<lambda>(price, sz) b. UpdateAskLevel c b (sint (EventTime event * 1000000)) price sz)
                 (Asks du)
                 (fold (\<lambda>(price, sz) b. UpdateBidLevel c b (sint (EventTime event * 1000000)) price sz)
                    (Bids du) book1), None))"
  by (simp add: HandleMessage_event_def Let_def split: prod.splits option.splits)

text \<open>
  C1, as the code has it. For a range \<open>[first, final]\<close> with \<open>first\<close> above the current
  sequence: when the book is synced and \<open>first\<close> is not the next sequence, \<open>UpdateSync\<close>
  calls \<open>SyncBook\<close> and returns the error "Message lost, resync" before the assignment of
  \<open>final\<close>, so the book is as \<open>SyncBook\<close> left it; in every other case \<open>UpdateSync\<close> returns
  no error and the sequence of the book is \<open>final\<close>.
\<close>

theorem sequence_advances_unless_resync:
  "Sequence book < first \<Longrightarrow>
   (if Synced book \<and> first \<noteq> Sequence book + 1
    then UpdateSync syncBook book first final = (Some MessageLostResync, syncBook book)
    else fst (UpdateSync syncBook book first final) = None
       \<and> Sequence (snd (UpdateSync syncBook book first final)) = final)"
  by (cases "Synced book")
     (simp_all add: UpdateSync_resync UpdateSync_synced_next UpdateSync_unsynced)

text \<open>
  Both cases at concrete inputs: the unsynced book at sequence 10 takes \<open>[15, 20]\<close> and
  is at 20; the same book, synced, is resynced on \<open>[12, 15]\<close>.
\<close>

theorem sequence_advances_unless_resync_witness:
  "Sequence example_book < 15
   \<and> fst (UpdateSync (SyncBook example_env) example_book 15 20) = None
   \<and> Sequence (snd (UpdateSync (SyncBook example_env) example_book 15 20)) = 20
   \<and> Sequence (example_book\<lparr>Synced := True\<rparr>) < 12
   \<and> UpdateSync (SyncBook example_env) (example_book\<lparr>Synced := True\<rparr>) 12 15
       = (Some MessageLostResync, SyncBook example_env (example_book\<lparr>Synced := True\<rparr>))"
  using sequence_advances_unless_resync [of example_book 15 "SyncBook example_env" 20]
        sequence_advances_unless_resync
          [of "example_book\<lparr>Synced := True\<rparr>" 12 "SyncBook example_env" 15]
  by (simp add: example_book_def)

text \<open>
  The claim as written fails on the resync path: a synced book at sequence 10 that
  receives \<open>[12, 15]\<close> is not at sequence 15 afterwards (the snapshot of the example
  environment puts it at 100).
\<close>

theorem resync_sequence_counterexample:
  "Sequence (example_book\<lparr>Synced := True\<rparr>) < 12
   \<and> Sequence (snd (UpdateSync (SyncBook example_env) (example_book\<lparr>Synced := True\<rparr>) 12 15))
       \<noteq> 15"
  by (simp add: UpdateSync_def example_env_def example_book_def SyncBook_snapshot_def)

lemma HandleMessage_early_return:
  "HandleMessage_event c book raw = Inl book1 \<Longrightarrow>
   HandleMessage c dbEnabled book batch raw now = (book1, batch)"
  by (simp add: HandleMessage_def)

text \<open>
  C2, as the code has it. For an unsynced book and a range \<open>[first, final]\<close> with \<open>first\<close>
  above the current sequence, \<open>UpdateSync\<close> returns no error and sets the sequence to
  \<open>final\<close>; the book is marked synced exactly when \<open>first \<le> next \<le> final\<close>. There is no
  stale verdict on this path: whether or not the range straddles \<open>next\<close>, \<open>HandleMessage\<close>
  goes on to apply the bid and ask levels of the message.
\<close>

theorem unsynced_range_is_accepted:
  assumes "\<not> Synced book" and "Sequence book < first"
    and "as_PacketEventHeader raw = Some event" and "EventType event = ''depthUpdate''"
    and "as_PacketDepthUpdate raw = Some du"
    and "FirstUpdateID du = first" and "FinalUpdateID du = final"
  shows "UpdateSync (SyncBook c) book first final =
           (None, book\<lparr>Synced := (first \<le> Sequence book + 1 \<and> Sequence book + 1 \<le> final),
                        Sequence := final\<rparr>)
       \<and> HandleMessage_event c book raw =
           Inr (fold (\<lambda>(price, sz) b. UpdateAskLevel c b (sint (EventTime event * 1000000)) price sz)
                  (Asks du)
                  (fold (\<lambda>(price, sz) b. UpdateBidLevel c b (sint (EventTime event * 1000000)) price sz)
                     (Bids du)
                     (book\<lparr>Synced := (first \<le> Sequence book + 1 \<and> Sequence book + 1 \<le> final),
                           Sequence := final\<rparr>)), None)"
  using assms
  by (simp add: HandleMessage_event_depthUpdate [OF assms(3,4,5)] UpdateSync_unsynced)

text \<open>
  The unsynced book at sequence 10 takes \<open>[15, 20]\<close>, which does not straddle 11, and
  stays unsynced with its bid applied; it takes \<open>[11, 13]\<close> and is synced.
\<close>

theorem unsynced_range_is_accepted_witness:
  "\<not> Synced example_book \<and> Sequence example_book < 15
   \<and> UpdateSync (SyncBook example_env) example_book 15 20
       = (None, example_book\<lparr>Synced := False, Sequence := 20\<rparr>)
   \<and> Bid (fst (projr (HandleMessage_event example_env example_book (example_depthUpdate 15 20))))
       = [\<lparr>Price = 0x4059000000000000, Size = 0x4014000000000000\<rparr>]
   \<and> Sequence example_book < 11
   \<and> UpdateSync (SyncBook example_env) example_book 11 13
       = (None, example_book\<lparr>Synced := True, Sequence := 13\<rparr>)"
  using unsynced_range_is_accepted
          [of example_book 15 "example_depthUpdate 15 20"
              "\<lparr>EventType = ''depthUpdate'', EventTime = 1\<rparr>"
              "\<lparr>FirstUpdateID = 15, FinalUpdateID = 20,
                Bids = [(0x4059000000000000, 0x4014000000000000)], Asks = []\<rparr>"
              20 example_env]
        unsynced_range_is_accepted
          [of example_book 11 "example_depthUpdate 11 13"
              "\<lparr>EventType = ''depthUpdate'', EventTime = 1\<rparr>"
              "\<lparr>FirstUpdateID = 11, FinalUpdateID = 13,
                Bids = [(0x4059000000000000, 0x4014000000000000)], Asks = []\<rparr>"
              13 example_env]
  by (simp add: example_book_def example_depthUpdate_def example_env_def applyBidLevel_def
        apply_level_def upsert_level_def is_zero_def)

text \<open>
  The claim as written fails where the range does not straddle \<open>next\<close>: the unsynced book
  at sequence 10 receives \<open>[15, 20]\<close>, \<open>UpdateSync\<close> returns no error, and the bid of the
  message is in the book afterwards.
\<close>

theorem unsynced_gap_counterexample:
  "\<not> Synced example_book \<and> Sequence example_book < 15
   \<and> \<not> (15 \<le> Sequence example_book + 1 \<and> Sequence example_book + 1 \<le> 20)
   \<and> fst (UpdateSync (SyncBook example_env) example_book 15 20) = None
   \<and> Bid (fst (HandleMessage example_env False example_book example_batch
                  (example_depthUpdate 15 20) 0))
       = [\<lparr>Price = 0x4059000000000000, Size = 0x4014000000000000\<rparr>]
   \<and> Bid example_book = []"
  by (simp add: HandleMessage_def HandleMessage_event_def HandleMessage_store_def
        UpdateSync_def example_book_def example_depthUpdate_def example_env_def
        applyBidLevel_def apply_level_def upsert_level_def is_zero_def)

text \<open>
  C3. For a synced book and a range \<open>[first, final]\<close> with \<open>first\<close> above the current
  sequence and different from the next one, \<open>UpdateSync\<close> calls \<open>SyncBook\<close> and returns the
  error "Message lost, resync"; \<open>HandleMessage\<close> returns at once: the book is as \<open>SyncBook\<close>
  left it, no level of the message is applied and the batch is untouched.
\<close>

theorem synced_gap_forces_resync:
  assumes "Synced book" and "Sequence book < first" and "first \<noteq> Sequence book + 1"
    and "as_PacketEventHeader raw = Some event" and "EventType event = ''depthUpdate''"
    and "as_PacketDepthUpdate raw = Some du"
    and "FirstUpdateID du = first" and "FinalUpdateID du = final"
  shows "UpdateSync (SyncBook c) book first final = (Some MessageLostResync, SyncBook c book)
       \<and> HandleMessage_event c book raw = Inl (SyncBook c book)
       \<and> HandleMessage c dbEnabled book batch raw now = (SyncBook c book, batch)"
proof -
  have u: "UpdateSync (SyncBook c) book first final = (Some MessageLostResync, SyncBook c book)"
    using assms(2,1,3) by (rule UpdateSync_resync)
  have e: "HandleMessage_event c book raw = Inl (SyncBook c book)"
    using u assms(7,8) by (simp add: HandleMessage_event_depthUpdate [OF assms(4,5,6)])
  show ?thesis
    using u e by (simp add: HandleMessage_early_return)
qed

text \<open>The synced book at sequence 10 receives \<open>[12, 14]\<close>: the snapshot at 100 replaces it.\<close>

theorem synced_gap_forces_resync_witness:
  "Synced (example_book\<lparr>Synced := True\<rparr>) \<and> Sequence (example_book\<lparr>Synced := True\<rparr>) < 12
   \<and> 12 \<noteq> Sequence (example_book\<lparr>Synced := True\<rparr>) + 1
   \<and> HandleMessage example_env True (example_book\<lparr>Synced := True\<rparr>) example_batch
        (example_depthUpdate 12 14) 5
       = (example_book\<lparr>Sequence := 100\<rparr>, example_batch)"
  using synced_gap_forces_resync
          [of "example_book\<lparr>Synced := True\<rparr>" 12 "example_depthUpdate 12 14"
              "\<lparr>EventType = ''depthUpdate'', EventTime = 1\<rparr>"
              "\<lparr>FirstUpdateID = 12, FinalUpdateID = 14,
                Bids = [(0x4059000000000000, 0x4014000000000000)], Asks = []\<rparr>"
              14 example_env True example_batch 5]
  by (simp add: example_book_def example_depthUpdate_def example_env_def SyncBook_snapshot_def)

text \<open>
  C4. For every book and every range \<open>[first, final]\<close> with \<open>first\<close> at or below the
  current sequence, \<open>UpdateSync\<close> returns the error "Ignore old messages" and leaves the
  book as it is (sequence and synced flag included); \<open>HandleMessage\<close> returns with book and
  batch unchanged, no level applied, whether or not the database is enabled; and the read
  loop goes on from the same state with the messages that follow.
\<close>

theorem stale_range_is_dropped:
  assumes "first \<le> Sequence book"
    and "as_PacketEventHeader raw = Some event" and "EventType event = ''depthUpdate''"
    and "as_PacketDepthUpdate raw = Some du"
    and "FirstUpdateID du = first" and "FinalUpdateID du = final"
  shows "UpdateSync syncBook book first final
           = (Some (IgnoreOldMessages final (Sequence book)), book)
       \<and> HandleMessage c dbEnabled book batch raw now = (book, batch)
       \<and> run_steps c dbEnabled (book, batch) (Message raw now # inputs)
           = run_steps c dbEnabled (book, batch) inputs"
proof -
  have u: "UpdateSync sb book first final = (Some (IgnoreOldMessages final (Sequence book)), book)"
    for sb
    using assms(1) by (rule UpdateSync_stale)
  have e: "HandleMessage_event c book raw = Inl book"
    using u [of "SyncBook c"] assms(5,6)
    by (simp add: HandleMessage_event_depthUpdate [OF assms(2,3,4)])
  have h: "HandleMessage c dbEnabled book batch raw now = (book, batch)"
    using e by (rule HandleMessage_early_return)
  show ?thesis
    using u h by (simp add: run_steps_def)
qed

text \<open>The book at sequence 10 receives \<open>[5, 9]\<close>.\<close>

theorem stale_range_is_dropped_witness:
  "(5::uint64) \<le> Sequence example_book
   \<and> UpdateSync (SyncBook example_env) example_book 5 9
       = (Some (IgnoreOldMessages 9 10), example_book)
   \<and> HandleMessage example_env True example_book example_batch (example_depthUpdate 5 9) 7
       = (example_book, example_batch)"
  using stale_range_is_dropped
          [of 5 example_book "example_depthUpdate 5 9"
              "\<lparr>EventType = ''depthUpdate'', EventTime = 1\<rparr>"
              "\<lparr>FirstUpdateID = 5, FinalUpdateID = 9,
                Bids = [(0x4059000000000000, 0x4014000000000000)], Asks = []\<rparr>"
              9 "SyncBook example_env" example_env True example_batch 7 "[]"]
  by (simp add: example_book_def example_depthUpdate_def)

section \<open>The monotonic-timestamp gate\<close>

text \<open>
  C5. Bitstamp's \<open>UpdateSync\<close>: a timestamp below the current sequence gives the error
  "Ignore old messages" and leaves the book unchanged; a timestamp at or above it (equal
  included) gives no error and becomes the sequence of the book.
\<close>

theorem monotonic_timestamp_gate:
  "(final < Sequence book \<longrightarrow>
      bitstamp_UpdateSync book final = (Some (IgnoreOldMessages final (Sequence book)), book))
   \<and> (Sequence book \<le> final \<longrightarrow>
      bitstamp_UpdateSync book final = (None, book\<lparr>Sequence := final\<rparr>))"
  by (auto simp add: bitstamp_UpdateSync_def Let_def)

text \<open>At sequence 100: 99 is stale, 150 and 100 are accepted.\<close>

theorem monotonic_timestamp_gate_witness:
  "(99::uint64) < Sequence (example_book\<lparr>Sequence := 100\<rparr>)
   \<and> bitstamp_UpdateSync (example_book\<lparr>Sequence := 100\<rparr>) 99
       = (Some (IgnoreOldMessages 99 100), example_book\<lparr>Sequence := 100\<rparr>)
   \<and> Sequence (example_book\<lparr>Sequence := 100\<rparr>) \<le> 150
   \<and> bitstamp_UpdateSync (example_book\<lparr>Sequence := 100\<rparr>) 150
       = (None, example_book\<lparr>Sequence := 150\<rparr>)
   \<and> Sequence (example_book\<lparr>Sequence := 100\<rparr>) \<le> 100
   \<and> bitstamp_UpdateSync (example_book\<lparr>Sequence := 100\<rparr>) 100
       = (None, example_book\<lparr>Sequence := 100\<rparr>)"
  using monotonic_timestamp_gate [of 99 "example_book\<lparr>Sequence := 100\<rparr>"]
        monotonic_timestamp_gate [of 150 "example_book\<lparr>Sequence := 100\<rparr>"]
        monotonic_timestamp_gate [of 100 "example_book\<lparr>Sequence := 100\<rparr>"]
  by (simp add: example_book_def)

section \<open>The codec\<close>

text \<open>
  The shifts of \<open>PutUint64\<close> give the little-endian digits of the value, and \<open>Uint64\<close>
  reads them back.
\<close>

lemma byte_of_word: "(ucast (drop_bit n (v::uint64)) :: byte) = of_nat (unat v div 2 ^ n mod 256)"
proof -
  have "(ucast (drop_bit n v) :: byte) = of_nat (unat (drop_bit n v))"
    by (simp only: of_nat_unat)
  also have "\<dots> = of_nat (unat v div 2 ^ n)"
    by (subst unat_drop_bit_eq) (simp only: drop_bit_eq_div)
  also have "\<dots> = (of_nat (unat v div 2 ^ n mod 256) :: byte)"
    by (simp add: word_of_nat_eq_iff take_bit_eq_mod)
  finally show ?thesis .
qed

lemma PutUint64_le64: "PutUint64 v = le64 v"
proof -
  have u: "[0..<8] = [0, 1, 2, 3, 4, 5, 6, 7::nat]"
    by (simp add: upt_rec)
  have b: "(ucast (drop_bit (8 * i) v) :: byte) = of_nat (unat v div 256 ^ i mod 256)" for i
    using byte_of_word [of "8 * i" v] by (simp add: power_mult)
  show ?thesis
    using b [of 0] b [of 1] b [of 2] b [of 3] b [of 4] b [of 5] b [of 6] b [of 7]
    by (simp add: PutUint64_def le64_def u)
qed

lemma slice_bit:
  "bit (push_bit k (ucast (ucast (drop_bit k (v::uint64)) :: byte)) :: uint64) n
     \<longleftrightarrow> k \<le> n \<and> n < k + 8 \<and> bit v n"
  by (auto simp add: bit_simps dest: bit_imp_le_length)

lemma Uint64_PutUint64: "Uint64 (PutUint64 v @ rest) = Some v"
proof -
  have "ucast (ucast v :: byte) OR push_bit 8 (ucast (ucast (drop_bit 8 v) :: byte))
        OR push_bit 16 (ucast (ucast (drop_bit 16 v) :: byte))
        OR push_bit 24 (ucast (ucast (drop_bit 24 v) :: byte))
        OR push_bit 32 (ucast (ucast (drop_bit 32 v) :: byte))
        OR push_bit 40 (ucast (ucast (drop_bit 40 v) :: byte))
        OR push_bit 48 (ucast (ucast (drop_bit 48 v) :: byte))
        OR push_bit 56 (ucast (ucast (drop_bit 56 v) :: byte)) = v" (is "?w = v")
  proof (rule bit_eqI)
    fix n
    assume "possible_bit TYPE(uint64) n"
    then have n: "n < 64" by simp
    have z: "bit (ucast (ucast v :: byte) :: uint64) n \<longleftrightarrow> n < 8 \<and> bit v n"
      using slice_bit [of 0 v n] by simp
    show "bit ?w n = bit v n"
      unfolding bit_or_iff slice_bit z using n by auto
  qed
  then show ?thesis
    by (simp add: PutUint64_def)
qed

lemma Uint64_le64: "Uint64 (le64 v @ rest) = Some v"
  using Uint64_PutUint64 [of v rest] by (simp add: PutUint64_le64)

lemma length_le64: "length (le64 v) = 8"
  by (simp add: le64_def)

lemma length_level_pairs: "length (level_pairs levels) = 16 * length levels"
  by (induction levels) (simp_all add: level_pairs_def length_le64)

text \<open>The \<open>range\<close> loop over the levels appends their pairs to the buffer.\<close>

lemma fold_write_level: "fold write_level levels buf = buf @ level_pairs levels"
  by (induction levels arbitrary: buf)
     (simp_all add: level_pairs_def write_level_def binary_Write_float64_def PutUint64_le64)

lemma PackDiff_Diff_record: "PackDiff tag first final diff = Diff_record tag first final diff"
  by (simp add: PackDiff_def Diff_record_def Let_def binary_Write_bytes_def
        binary_Write_uint64_def fold_write_level PutUint64_le64)

lemma PackSync_Sync_record:
  "PackSync tag book = Sync_record tag (Sequence book) (Bid book) (Ask book)"
  by (simp add: PackSync_def Sync_record_def Let_def binary_Write_bytes_def
        binary_Write_uint64_def fold_write_level PutUint64_le64)

text \<open>
  C6. For every tag, \<open>first\<close>, \<open>final\<close> and diff, the bytes of \<open>PackDiff\<close> are, in order:
  the tag, \<open>first\<close>, \<open>first\<close> again, \<open>final\<close>, the number of bids, the bids as (price, size)
  pairs of 16 bytes each, the number of asks, the asks as pairs, every field of 64 bits
  little-endian; this is the Diff record of the specification's table. The two fields after
  the tag are the same eight bytes, and reading the fields back with \<open>Uint64\<close> gives
  \<open>first\<close>, \<open>first\<close>, \<open>final\<close> and the two counts. (A count is \<open>uint64(len(...))\<close>, the
  length of a Go slice.)
\<close>

theorem diff_record_layout:
  "PackDiff tag first final diff
     = tag @ le64 first @ le64 first @ le64 final
         @ le64 (of_nat (length (DiffBid diff))) @ level_pairs (DiffBid diff)
         @ le64 (of_nat (length (DiffAsk diff))) @ level_pairs (DiffAsk diff)
   \<and> PackDiff tag first final diff = Diff_record tag first final diff
   \<and> length (level_pairs (DiffBid diff)) = 16 * length (DiffBid diff)
   \<and> length (level_pairs (DiffAsk diff)) = 16 * length (DiffAsk diff)
   \<and> take 8 (drop (length tag) (PackDiff tag first final diff))
       = take 8 (drop (length tag + 8) (PackDiff tag first final diff))
   \<and> Uint64 (drop (length tag) (PackDiff tag first final diff)) = Some first
   \<and> Uint64 (drop (length tag + 8) (PackDiff tag first final diff)) = Some first
   \<and> Uint64 (drop (length tag + 16) (PackDiff tag first final diff)) = Some final
   \<and> Uint64 (drop (length tag + 24) (PackDiff tag first final diff))
       = Some (of_nat (length (DiffBid diff)))
   \<and> Uint64 (drop (length tag + 32 + 16 * length (DiffBid diff))
         (PackDiff tag first final diff))
       = Some (of_nat (length (DiffAsk diff)))"
  by (simp add: PackDiff_Diff_record Diff_record_def length_le64 length_level_pairs Uint64_le64)

section \<open>The batch writer\<close>

text \<open>What \<open>WriteDiff\<close> and \<open>WriteSync\<close> return, by the guard on the pending diff.\<close>

lemma WriteDiff_empty:
  "DiffBid (Diff (FixBookLevels c book)) = [] \<Longrightarrow> DiffAsk (Diff (FixBookLevels c book)) = [] \<Longrightarrow>
   WriteDiff c batch book now = (FixBookLevels c book, batch)"
  by (simp add: WriteDiff_def Let_def)

lemma WriteDiff_nonempty:
  "DiffBid (Diff (FixBookLevels c book)) \<noteq> [] \<or> DiffAsk (Diff (FixBookLevels c book)) \<noteq> [] \<Longrightarrow>
   WriteDiff c batch book now =
     (ResetDiff (FixBookLevels c book),
      (BatchWrite batch now (DatabaseKey (ProductInfo (FixBookLevels c book)))
         (PackDiff (DiffPacket c) (LastDiffSeq batch) (Sequence (FixBookLevels c book))
            (Diff (FixBookLevels c book))))
      \<lparr>LastDiffSeq := Sequence (FixBookLevels c book) + 1\<rparr>)"
  by (auto simp add: WriteDiff_def Let_def ResetDiff_def)

lemma bitstamp_WriteDiff_empty:
  "DiffBid (Diff (FixBookLevels c book)) = [] \<Longrightarrow> DiffAsk (Diff (FixBookLevels c book)) = [] \<Longrightarrow>
   bitstamp_WriteDiff c batch book now = (FixBookLevels c book, batch)"
  by (simp add: bitstamp_WriteDiff_def Let_def)

lemma bitstamp_WriteDiff_nonempty:
  "DiffBid (Diff (FixBookLevels c book)) \<noteq> [] \<or> DiffAsk (Diff (FixBookLevels c book)) \<noteq> [] \<Longrightarrow>
   bitstamp_WriteDiff c batch book now =
     (ResetDiff (FixBookLevels c book),
      (BatchWrite batch now (DatabaseKey (ProductInfo (FixBookLevels c book)))
         (common_PackDiff c (LastDiffSeq batch) (Sequence (FixBookLevels c book))
            (Diff (FixBookLevels c book))))
      \<lparr>LastDiffSeq := Sequence (FixBookLevels c book) + 1\<rparr>)"
  by (auto simp add: bitstamp_WriteDiff_def Let_def ResetDiff_def)

lemma WriteSync_eq:
  "WriteSync c batch book now =
     (ResetDiff (FixBookLevels c book),
      (BatchWrite batch now (DatabaseKey (ProductInfo (FixBookLevels c book)))
         (PackSync (SyncPacket c) (FixBookLevels c book)))
      \<lparr>LastDiffSeq := Sequence (FixBookLevels c book) + 1\<rparr>)"
  by (simp add: WriteSync_def Let_def ResetDiff_def)

lemma Batch_BatchWrite:
  "Batch (BatchWrite batch now key pkt) = Batch batch @ [\<lparr>ChunkTime = now, ChunkKey = key, Data = pkt\<rparr>]"
  by (simp add: BatchWrite_def)

lemma WriteDiff_writes:
  "Batch (snd (WriteDiff c batch book now)) \<noteq> Batch batch \<Longrightarrow>
   (DiffBid (Diff (FixBookLevels c book)) \<noteq> [] \<or> DiffAsk (Diff (FixBookLevels c book)) \<noteq> [])
   \<and> Batch (snd (WriteDiff c batch book now)) =
       Batch batch @
         [\<lparr>ChunkTime = now, ChunkKey = DatabaseKey (ProductInfo (FixBookLevels c book)),
           Data = PackDiff (DiffPacket c) (LastDiffSeq batch)
                    (Sequence (FixBookLevels c book)) (Diff (FixBookLevels c book))\<rparr>]"
proof -
  assume w: "Batch (snd (WriteDiff c batch book now)) \<noteq> Batch batch"
  have ne: "DiffBid (Diff (FixBookLevels c book)) \<noteq> [] \<or> DiffAsk (Diff (FixBookLevels c book)) \<noteq> []"
  proof (rule ccontr)
    assume "\<not> ?thesis"
    then have "WriteDiff c batch book now = (FixBookLevels c book, batch)"
      by (simp add: WriteDiff_empty)
    with w show False by simp
  qed
  show ?thesis
    using ne by (simp add: WriteDiff_nonempty [OF ne] Batch_BatchWrite)
qed

lemma bitstamp_WriteDiff_writes:
  "Batch (snd (bitstamp_WriteDiff c batch book now)) \<noteq> Batch batch \<Longrightarrow>
   (DiffBid (Diff (FixBookLevels c book)) \<noteq> [] \<or> DiffAsk (Diff (FixBookLevels c book)) \<noteq> [])
   \<and> Batch (snd (bitstamp_WriteDiff c batch book now)) =
       Batch batch @
         [\<lparr>ChunkTime = now, ChunkKey = DatabaseKey (ProductInfo (FixBookLevels c book)),
           Data = common_PackDiff c (LastDiffSeq batch)
                    (Sequence (FixBookLevels c book)) (Diff (FixBookLevels c book))\<rparr>]"
proof -
  assume w: "Batch (snd (bitstamp_WriteDiff c batch book now)) \<noteq> Batch batch"
  have ne: "DiffBid (Diff (FixBookLevels c book)) \<noteq> [] \<or> DiffAsk (Diff (FixBookLevels c book)) \<noteq> []"
  proof (rule ccontr)
    assume "\<not> ?thesis"
    then have "bitstamp_WriteDiff c batch book now = (FixBookLevels c book, batch)"
      by (simp add: bitstamp_WriteDiff_empty)
    with w show False by simp
  qed
  show ?thesis
    using ne by (simp add: bitstamp_WriteDiff_nonempty [OF ne] Batch_BatchWrite)
qed

text \<open>
  \<open>HandleMessage\<close> never reads \<open>NextDiff\<close> while it decodes and applies the event, and
  when \<open>NextSync\<close> answers true it goes to \<open>WriteSync\<close>.
\<close>

lemma HandleMessage_event_NextDiff:
  "HandleMessage_event (c\<lparr>NextDiff := nextDiff\<rparr>) book raw = HandleMessage_event c book raw"
  by (simp add: HandleMessage_event_def Let_def split: option.splits prod.splits)

lemma HandleMessage_store_sync:
  "NextSync c (case trade of
                 Some t \<Rightarrow> BatchWrite batch now (DatabaseKey (ProductInfo book))
                             (PackTrade (TradePacket c) t)
               | None \<Rightarrow> batch) now = (True, batch2) \<Longrightarrow>
   HandleMessage_store c True book batch trade now = WriteSync c batch2 book now"
  by (simp add: HandleMessage_store_def Let_def)

text \<open>The example environment on the example inputs.\<close>

lemma example_run:
  "run_steps example_env True (example_book, example_batch)
     [Message (example_depthUpdate 11 13) 5] = (example_book_13, example_batch)"
  by (simp add: run_steps_def HandleMessage_def HandleMessage_event_def HandleMessage_store_def
        UpdateSync_def example_book_def example_batch_def example_depthUpdate_def example_env_def
        applyBidLevel_def apply_level_def upsert_level_def is_zero_def shouldSnapshot_def
        shouldDiff_def example_book_13_def)

lemma example_event_13:
  "HandleMessage_event example_env example_book (example_depthUpdate 11 13)
     = Inr (example_book_13, None)"
  by (simp add: HandleMessage_event_def
        UpdateSync_def example_book_def example_depthUpdate_def example_env_def
        applyBidLevel_def apply_level_def upsert_level_def is_zero_def example_book_13_def)

lemma example_event_trade:
  "HandleMessage_event example_env example_book example_aggTrade
     = Inr (example_book_traded, Some example_trade)"
  by (simp add: HandleMessage_event_def example_book_def example_aggTrade_def example_env_def
        AddTrade_def example_trade_def example_book_traded_def)

lemma example_book_traded_fields:
  "Sequence example_book_traded = 10"
  "DatabaseKey (ProductInfo example_book_traded) = ''Binance-BTC-USDT''"
  "Bid example_book_traded = []" "Ask example_book_traded = []"
  "\<not> Synced example_book_traded"
  by (simp_all add: example_book_traded_def example_book_def)

lemma example_fix_traded: "FixBookLevels example_env example_book_traded = example_book_traded"
  by (simp add: example_env_def example_book_traded_def example_book_def purgeTombstones_def)

lemma example_fix_13: "FixBookLevels example_env example_book_13 = example_book_13"
  by (simp add: example_env_def example_book_13_def example_book_def purgeTombstones_def
        is_zero_def)


lemma example_book_13_fields:
  "Sequence example_book_13 = 13"
  "DatabaseKey (ProductInfo example_book_13) = ''Binance-BTC-USDT''"
  "Diff example_book_13 =
     \<lparr>DiffBid = [\<lparr>Price = 0x4059000000000000, Size = 0x4014000000000000\<rparr>], DiffAsk = []\<rparr>"
  by (simp_all add: example_book_13_def example_book_def)

lemma example_batch_fields:
  "Batch example_batch = []" "LastDiffSeq example_batch = 0" "LastSync example_batch = 0"
  by (simp_all add: example_batch_def)

lemma example_env_tags:
  "SyncPacket example_env = [0]" "DiffPacket example_env = [1]" "TradePacket example_env = [2]"
  by (simp_all add: example_env_def)

text \<open>
  C7. In every state \<open>(book, batch)\<close> that the Binance read loop reaches from any state \<open>s\<close>
  by any sequence of steps, \<open>WriteDiff\<close> hands a record to the batch only if the
  pending diff that it reads (the book's, after \<open>FixBookLevels\<close>) has a bid or an ask; the
  record is then the \<open>PackDiff\<close> of that diff, appended as the last chunk. The Bitstamp
  client's \<open>WriteDiff\<close> has the same guard, and the same holds for it in every state
  \<open>(book', batch')\<close> whatsoever.
\<close>

theorem empty_diff_never_written:
  "(run_steps c dbEnabled s inputs = (book, batch) \<longrightarrow>
    Batch (snd (WriteDiff c batch book now)) \<noteq> Batch batch \<longrightarrow>
      (DiffBid (Diff (FixBookLevels c book)) \<noteq> [] \<or> DiffAsk (Diff (FixBookLevels c book)) \<noteq> [])
      \<and> Batch (snd (WriteDiff c batch book now)) =
          Batch batch @
            [\<lparr>ChunkTime = now, ChunkKey = DatabaseKey (ProductInfo (FixBookLevels c book)),
              Data = PackDiff (DiffPacket c) (LastDiffSeq batch)
                       (Sequence (FixBookLevels c book)) (Diff (FixBookLevels c book))\<rparr>])
   \<and> (Batch (snd (bitstamp_WriteDiff c batch' book' now)) \<noteq> Batch batch' \<longrightarrow>
      (DiffBid (Diff (FixBookLevels c book')) \<noteq> [] \<or> DiffAsk (Diff (FixBookLevels c book')) \<noteq> [])
      \<and> Batch (snd (bitstamp_WriteDiff c batch' book' now)) =
          Batch batch' @
            [\<lparr>ChunkTime = now, ChunkKey = DatabaseKey (ProductInfo (FixBookLevels c book')),
              Data = common_PackDiff c (LastDiffSeq batch')
                       (Sequence (FixBookLevels c book')) (Diff (FixBookLevels c book'))\<rparr>])"
  using WriteDiff_writes [of c batch book now] bitstamp_WriteDiff_writes [of c batch' book' now]
  by blast

text \<open>
  After the depth update \<open>[11, 13]\<close> the example book has one pending bid, and both
  \<open>WriteDiff\<close>s write.
\<close>

theorem empty_diff_never_written_witness:
  "run_steps example_env True (example_book, example_batch)
     [Message (example_depthUpdate 11 13) 5] = (example_book_13, example_batch)
   \<and> Batch (snd (WriteDiff example_env example_batch example_book_13 6)) \<noteq> Batch example_batch
   \<and> Batch (snd (bitstamp_WriteDiff example_env example_batch example_book_13 6))
       \<noteq> Batch example_batch
   \<and> DiffBid (Diff (FixBookLevels example_env example_book_13)) \<noteq> []
   \<and> Batch (snd (WriteDiff example_env example_batch example_book_13 6)) =
       [\<lparr>ChunkTime = 6, ChunkKey = ''Binance-BTC-USDT'',
         Data = PackDiff [1] 0 13
                  \<lparr>DiffBid = [\<lparr>Price = 0x4059000000000000, Size = 0x4014000000000000\<rparr>],
                   DiffAsk = []\<rparr>\<rparr>]"
proof -
  have w: "Batch (snd (WriteDiff example_env example_batch example_book_13 6))
             \<noteq> Batch example_batch"
    by (simp add: WriteDiff_def Let_def example_fix_13 BatchWrite_def example_book_13_fields)
  have b: "Batch (snd (bitstamp_WriteDiff example_env example_batch example_book_13 6))
             \<noteq> Batch example_batch"
    by (simp add: bitstamp_WriteDiff_def Let_def example_fix_13 BatchWrite_def
          example_book_13_fields)
  show ?thesis
    using empty_diff_never_written
            [of example_env True "(example_book, example_batch)"
                "[Message (example_depthUpdate 11 13) 5]" example_book_13 example_batch 6
                example_batch example_book_13]
          example_run w b
    by (simp add: example_fix_13 example_book_13_fields example_batch_fields example_env_tags)
qed

text \<open>
  C8. When an event has been applied (the event phase reaches the batch writer with book
  \<open>book1\<close>), the database is enabled and \<open>NextSync\<close> answers true, \<open>HandleMessage\<close> ends as
  \<open>WriteSync\<close> does. A full snapshot is encoded and written: the chunk appended to the
  batch is the Sync record of the specification's table (tag, sequence, bid count, every
  bid level, ask count, every ask level) for the book after \<open>FixBookLevels\<close>, whose levels
  remain in the book. The pending diff is empty on both sides, and \<open>LastDiffSeq\<close> is the
  book's sequence plus one. \<open>NextDiff\<close> is not called on that event: the outcome is the same
  whatever function stands in its place.
\<close>

theorem snapshot_trigger_writes_sync:
  assumes "HandleMessage_event c book raw = Inr (book1, trade)"
    and "NextSync c (case trade of
                       Some t \<Rightarrow> BatchWrite batch now (DatabaseKey (ProductInfo book1))
                                   (PackTrade (TradePacket c) t)
                     | None \<Rightarrow> batch) now = (True, batch2)"
  shows "HandleMessage c True book batch raw now =
           (ResetDiff (FixBookLevels c book1),
            (BatchWrite batch2 now (DatabaseKey (ProductInfo (FixBookLevels c book1)))
               (PackSync (SyncPacket c) (FixBookLevels c book1)))
            \<lparr>LastDiffSeq := Sequence (FixBookLevels c book1) + 1\<rparr>)
       \<and> PackSync (SyncPacket c) (FixBookLevels c book1) =
           Sync_record (SyncPacket c) (Sequence (FixBookLevels c book1))
             (Bid (FixBookLevels c book1)) (Ask (FixBookLevels c book1))
       \<and> Batch (snd (HandleMessage c True book batch raw now)) =
           Batch batch2 @
             [\<lparr>ChunkTime = now, ChunkKey = DatabaseKey (ProductInfo (FixBookLevels c book1)),
               Data = Sync_record (SyncPacket c) (Sequence (FixBookLevels c book1))
                        (Bid (FixBookLevels c book1)) (Ask (FixBookLevels c book1))\<rparr>]
       \<and> Bid (fst (HandleMessage c True book batch raw now)) = Bid (FixBookLevels c book1)
       \<and> Ask (fst (HandleMessage c True book batch raw now)) = Ask (FixBookLevels c book1)
       \<and> Diff (fst (HandleMessage c True book batch raw now)) = \<lparr>DiffBid = [], DiffAsk = []\<rparr>
       \<and> LastDiffSeq (snd (HandleMessage c True book batch raw now))
           = Sequence (fst (HandleMessage c True book batch raw now)) + 1
       \<and> HandleMessage (c\<lparr>NextDiff := nextDiff\<rparr>) True book batch raw now
           = HandleMessage c True book batch raw now"
proof -
  have h: "HandleMessage c True book batch raw now = WriteSync c batch2 book1 now"
    using assms by (simp add: HandleMessage_def HandleMessage_store_sync)
  have s': "NextSync (c\<lparr>NextDiff := nextDiff\<rparr>)
              (case trade of
                 Some t \<Rightarrow> BatchWrite batch now (DatabaseKey (ProductInfo book1))
                             (PackTrade (TradePacket (c\<lparr>NextDiff := nextDiff\<rparr>)) t)
               | None \<Rightarrow> batch) now = (True, batch2)"
    using assms(2) by (cases trade) simp_all
  have h': "HandleMessage (c\<lparr>NextDiff := nextDiff\<rparr>) True book batch raw now
            = WriteSync (c\<lparr>NextDiff := nextDiff\<rparr>) batch2 book1 now"
    using assms(1)
    by (simp add: HandleMessage_def HandleMessage_event_NextDiff
          HandleMessage_store_sync [OF s'])
  have w: "WriteSync (c\<lparr>NextDiff := nextDiff\<rparr>) batch2 book1 now = WriteSync c batch2 book1 now"
    by (simp add: WriteSync_eq)
  show ?thesis
    unfolding h' w h
    by (simp add: WriteSync_eq ResetDiff_def Batch_BatchWrite PackSync_Sync_record)
qed

text \<open>
  The depth update \<open>[11, 13]\<close> arrives 61 seconds after the last snapshot: the record
  written is tag 0, sequence 13, one bid (100.0, 5.0) and no ask.
\<close>

theorem snapshot_trigger_writes_sync_witness:
  "HandleMessage_event example_env example_book (example_depthUpdate 11 13)
     = Inr (example_book_13, None)
   \<and> NextSync example_env example_batch 61000000000
       = (True, example_batch\<lparr>LastSync := 61000000000\<rparr>)
   \<and> Batch (snd (HandleMessage example_env True example_book example_batch
                    (example_depthUpdate 11 13) 61000000000)) =
       [\<lparr>ChunkTime = 61000000000, ChunkKey = ''Binance-BTC-USDT'',
         Data = [0] @ le64 13
                  @ le64 1 @ le64 0x4059000000000000 @ le64 0x4014000000000000
                  @ le64 0\<rparr>]
   \<and> Diff (fst (HandleMessage example_env True example_book example_batch
                   (example_depthUpdate 11 13) 61000000000)) = \<lparr>DiffBid = [], DiffAsk = []\<rparr>
   \<and> LastDiffSeq (snd (HandleMessage example_env True example_book example_batch
                   (example_depthUpdate 11 13) 61000000000)) = 14"
proof -
  have n: "NextSync example_env
             (case None of
                Some t \<Rightarrow> BatchWrite example_batch 61000000000
                            (DatabaseKey (ProductInfo example_book_13))
                            (PackTrade (TradePacket example_env) t)
              | None \<Rightarrow> example_batch) 61000000000
           = (True, example_batch\<lparr>LastSync := 61000000000\<rparr>)"
    by (simp add: example_env_def shouldSnapshot_def example_batch_def)
  have l: "Bid example_book_13 = [\<lparr>Price = 0x4059000000000000, Size = 0x4014000000000000\<rparr>]"
    "Ask example_book_13 = []"
    by (simp_all add: example_book_13_def example_book_def)
  show ?thesis
    using snapshot_trigger_writes_sync [OF example_event_13 n, of "NextDiff example_env"]
          example_event_13 n
    by (simp add: example_fix_13 example_book_13_fields ResetDiff_def l example_env_tags
          example_batch_fields Sync_record_def level_pairs_def Batch_BatchWrite)
qed




text \<open>
  C10. When an event has been applied, the database is enabled and \<open>NextSync\<close> answers
  true, the \<open>PackSync\<close> of the book is appended to the batch: \<open>WriteSync\<close> has no guard, on
  the synced flag or on the levels. The record is the Sync record of the specification's
  table, and for a book without levels it is the tag, the sequence and two zero counts.
\<close>

theorem snapshot_is_unconditional:
  assumes "HandleMessage_event c book raw = Inr (book1, trade)"
    and "NextSync c (case trade of
                       Some t \<Rightarrow> BatchWrite batch now (DatabaseKey (ProductInfo book1))
                                   (PackTrade (TradePacket c) t)
                     | None \<Rightarrow> batch) now = (True, batch2)"
  shows "Batch (snd (HandleMessage c True book batch raw now)) =
           Batch batch2 @
             [\<lparr>ChunkTime = now, ChunkKey = DatabaseKey (ProductInfo (FixBookLevels c book1)),
               Data = PackSync (SyncPacket c) (FixBookLevels c book1)\<rparr>]
       \<and> Batch (snd (WriteSync c batch2 book1 now)) =
           Batch batch2 @
             [\<lparr>ChunkTime = now, ChunkKey = DatabaseKey (ProductInfo (FixBookLevels c book1)),
               Data = PackSync (SyncPacket c) (FixBookLevels c book1)\<rparr>]
       \<and> PackSync (SyncPacket c) (FixBookLevels c book1) =
           Sync_record (SyncPacket c) (Sequence (FixBookLevels c book1))
             (Bid (FixBookLevels c book1)) (Ask (FixBookLevels c book1))
       \<and> (Bid (FixBookLevels c book1) = [] \<and> Ask (FixBookLevels c book1) = [] \<longrightarrow>
            PackSync (SyncPacket c) (FixBookLevels c book1) =
              SyncPacket c @ le64 (Sequence (FixBookLevels c book1)) @ le64 0 @ le64 0)"
proof -
  have h: "HandleMessage c True book batch raw now = WriteSync c batch2 book1 now"
    using assms by (simp add: HandleMessage_def HandleMessage_store_sync)
  show ?thesis
    unfolding h
    by (simp add: WriteSync_eq Batch_BatchWrite PackSync_Sync_record Sync_record_def
          level_pairs_def)
qed

text \<open>
  A trade arrives 61 seconds after the last snapshot, on the unsynced example book without
  levels: the trade record and the empty snapshot are written.
\<close>

theorem snapshot_is_unconditional_witness:
  "HandleMessage_event example_env example_book example_aggTrade
     = Inr (example_book_traded, Some example_trade)
   \<and> NextSync example_env
         (BatchWrite example_batch 61000000000 ''Binance-BTC-USDT''
            (PackTrade [2] example_trade)) 61000000000
       = (True, (BatchWrite example_batch 61000000000 ''Binance-BTC-USDT''
                   (PackTrade [2] example_trade))\<lparr>LastSync := 61000000000\<rparr>)
   \<and> \<not> Synced example_book_traded
   \<and> Bid (FixBookLevels example_env example_book_traded) = []
   \<and> Ask (FixBookLevels example_env example_book_traded) = []
   \<and> Batch (snd (HandleMessage example_env True example_book example_batch example_aggTrade
                    61000000000)) =
       [\<lparr>ChunkTime = 61000000000, ChunkKey = ''Binance-BTC-USDT'',
         Data = PackTrade [2] example_trade\<rparr>,
        \<lparr>ChunkTime = 61000000000, ChunkKey = ''Binance-BTC-USDT'',
         Data = [0] @ le64 10 @ le64 0 @ le64 0\<rparr>]"
proof -
  have n: "NextSync example_env
             (case Some example_trade of
                Some t \<Rightarrow> BatchWrite example_batch 61000000000
                            (DatabaseKey (ProductInfo example_book_traded))
                            (PackTrade (TradePacket example_env) t)
              | None \<Rightarrow> example_batch) 61000000000
           = (True, (BatchWrite example_batch 61000000000 ''Binance-BTC-USDT''
                       (PackTrade [2] example_trade))\<lparr>LastSync := 61000000000\<rparr>)"
    by (simp add: example_env_def shouldSnapshot_def example_batch_def BatchWrite_def
          example_book_traded_fields)
  show ?thesis
    using snapshot_is_unconditional [OF example_event_trade n] example_event_trade n
    by (simp add: example_fix_traded example_book_traded_fields example_env_tags
          example_batch_fields Batch_BatchWrite Sync_record_def level_pairs_def)
qed

end
